theory Spec2Isabelle
  imports Main
begin

section \<open>The browser: session storage and observable effects\<close>

text \<open>
  Every page of the application talks to the same per-tab \<open>sessionStorage\<close>, a
  key/value store of strings. A handler (an \<open>onMount\<close> callback, a click handler) is
  modelled as a function of the storage it finds; it returns the storage it leaves behind
  together with the effects it performed, in program order, and the component variables
  the claims talk about. Only the storage survives a page change, so handlers of
  different pages are composed through the storage alone.
\<close>

type_synonym storage = "string \<rightharpoonup> string"

datatype request =
    TokenExchange string string  \<comment> \<open>POST to the token endpoint: code, code verifier\<close>
  | GetUser string               \<comment> \<open>GET /api/v4/user with a bearer token\<close>
  | GetTokenInfo string          \<comment> \<open>GET /oauth/token/info with a bearer token\<close>

datatype event =
    StorageSet string string     \<comment> \<open>\<open>sessionStorage.setItem(key, value)\<close>\<close>
  | StorageRemove string         \<comment> \<open>\<open>sessionStorage.removeItem(key)\<close>\<close>
  | Request request              \<comment> \<open>an outbound HTTP request\<close>
  | BuildURL string string       \<comment> \<open>\<open>createAuthorizationURLWithPKCE\<close>: state, verifier\<close>
  | Navigate string              \<comment> \<open>\<open>window.location.href = url\<close>\<close>
  | Goto string                  \<comment> \<open>SvelteKit \<open>goto(path)\<close>, immediate or by timer\<close>

record browser =
  storage :: storage
  trace :: "event list"

definition getItem :: "'a browser_scheme \<Rightarrow> string \<Rightarrow> string option" where
  "getItem b k = storage b k"

definition setItem :: "string \<Rightarrow> string \<Rightarrow> 'a browser_scheme \<Rightarrow> 'a browser_scheme" where
  "setItem k v b = b\<lparr>storage := (storage b)(k \<mapsto> v), trace := trace b @ [StorageSet k v]\<rparr>"

definition removeItem :: "string \<Rightarrow> 'a browser_scheme \<Rightarrow> 'a browser_scheme" where
  "removeItem k b = b\<lparr>storage := (storage b)(k := None), trace := trace b @ [StorageRemove k]\<rparr>"

definition emit :: "event \<Rightarrow> 'a browser_scheme \<Rightarrow> 'a browser_scheme" where
  "emit e b = b\<lparr>trace := trace b @ [e]\<rparr>"

text \<open>JavaScript truthiness of a \<open>string | null\<close>: \<open>null\<close> and the empty string are falsy.\<close>

definition truthy :: "string option \<Rightarrow> bool" where
  "truthy x = (case x of None \<Rightarrow> False | Some v \<Rightarrow> v \<noteq> [])"

text \<open>
  The storage as it stands after a prefix of a trace: storage events are replayed, every
  other event leaves the storage alone.
\<close>

fun apply_event :: "storage \<Rightarrow> event \<Rightarrow> storage" where
  "apply_event s (StorageSet k v) = s(k \<mapsto> v)"
| "apply_event s (StorageRemove k) = s(k := None)"
| "apply_event s _ = s"

definition replay :: "event list \<Rightarrow> storage \<Rightarrow> storage" where
  "replay evs s = foldl apply_event s evs"

fun touched :: "event \<Rightarrow> string set" where
  "touched (StorageSet k v) = {k}"
| "touched (StorageRemove k) = {k}"
| "touched _ = {}"

definition touched_keys :: "event list \<Rightarrow> string set" where
  "touched_keys evs = (\<Union>e \<in> set evs. touched e)"

section \<open>The outside world\<close>

text \<open>
  Calls into the OAuth helper library and the network are parameters of the model: a call
  either returns a value or throws an \<open>Error\<close> with a message.
\<close>

datatype 'a call = Returns 'a | Throws string

text \<open>
  The token object handed back by the exchange. The page calls \<open>tokens.accessToken()\<close>
  and \<open>tokens.refreshToken()\<close>; the latter is tested for truthiness by the page, so its
  result is a \<open>string | null\<close>. Both are calls into the library and may throw; a
  token response without a refresh token is a token object whose \<open>refreshToken()\<close>
  throws.
\<close>

record tokens =
  accessToken :: "string call"
  refreshToken :: "string option call"

text \<open>
  A parsed JSON body, as far as the pages look into it: \<open>null\<close>, or any other value with
  the rendering of its \<open>username\<close> property.
\<close>

datatype json = JNull | JValue string

record response =
  ok :: bool
  json_body :: "json call"  \<comment> \<open>\<open>await response.json()\<close>\<close>

record world =
  generateState :: "string call"
  generateCodeVerifier :: "string call"
  createAuthorizationURLWithPKCE :: "string \<Rightarrow> string \<Rightarrow> string call"
  validateAuthorizationCode :: "string \<Rightarrow> string \<Rightarrow> tokens call"
  fetchUser :: "string \<Rightarrow> response call"

section \<open>Home page: session check, login initiation, logout\<close>

record home_page = browser +
  isLoggedIn :: bool
  userInfo :: "json option"

definition home_load :: "storage \<Rightarrow> home_page" where
  "home_load s = \<lparr>storage = s, trace = [], isLoggedIn = False, userInfo = None\<rparr>"

text \<open>\<open>onMount\<close> of the home page: verify a stored access token against the provider.\<close>

definition home_onMount :: "world \<Rightarrow> storage \<Rightarrow> home_page" where
  "home_onMount w s =
    (let p = home_load s;
         accessToken = getItem p ''gitlab_access_token''
     in case accessToken of
          None \<Rightarrow> p
        | Some t \<Rightarrow>
            if t = [] then p
            else
              let p = emit (Request (GetUser t)) p
              in case fetchUser w t of
                   Throws m \<Rightarrow> p
                 | Returns resp \<Rightarrow>
                     if ok resp then
                       (case json_body resp of
                          Throws m \<Rightarrow> p
                        | Returns u \<Rightarrow> p\<lparr>isLoggedIn := True, userInfo := Some u\<rparr>)
                     else
                       removeItem ''gitlab_refresh_token''
                         (removeItem ''gitlab_access_token'' p))"

text \<open>
  \<open>loginWithGitLab\<close>: generate the flow parameters, store them, build the authorization
  URL, navigate to it. A throwing library call ends the handler where it stands.
\<close>

definition loginWithGitLab :: "world \<Rightarrow> storage \<Rightarrow> browser" where
  "loginWithGitLab w s =
    (let b = \<lparr>storage = s, trace = []\<rparr>
     in case generateState w of
          Throws m \<Rightarrow> b
        | Returns state \<Rightarrow>
            (case generateCodeVerifier w of
               Throws m \<Rightarrow> b
             | Returns codeVerifier \<Rightarrow>
                 let b = setItem ''oauth_state'' state b;
                     b = setItem ''code_verifier'' codeVerifier b;
                     b = emit (BuildURL state codeVerifier) b
                 in case createAuthorizationURLWithPKCE w state codeVerifier of
                      Throws m \<Rightarrow> b
                    | Returns url \<Rightarrow> emit (Navigate url) b))"

text \<open>\<open>logout\<close> of the home page: four keys, then the component is reset in place.\<close>

definition logout_home :: "storage \<Rightarrow> home_page" where
  "logout_home s =
    (let p = home_load s;
         p = removeItem ''gitlab_access_token'' p;
         p = removeItem ''gitlab_refresh_token'' p;
         p = removeItem ''oauth_state'' p;
         p = removeItem ''code_verifier'' p
     in p\<lparr>isLoggedIn := False, userInfo := None\<rparr>)"

section \<open>Repositories, dashboard and callback pages: logout\<close>

text \<open>
  The three other pages carry the same \<open>logout\<close>, textually identical: five keys, then
  \<open>goto\<close> the home page.
\<close>

definition logout_and_goto :: "storage \<Rightarrow> browser" where
  "logout_and_goto s =
    (let b = \<lparr>storage = s, trace = []\<rparr>;
         b = removeItem ''gitlab_access_token'' b;
         b = removeItem ''gitlab_refresh_token'' b;
         b = removeItem ''oauth_state'' b;
         b = removeItem ''code_verifier'' b;
         b = removeItem ''selected_repo'' b
     in emit (Goto ''/'') b)"

definition logout_repos :: "storage \<Rightarrow> browser" where
  "logout_repos = logout_and_goto"

definition logout_dashboard :: "storage \<Rightarrow> browser" where
  "logout_dashboard = logout_and_goto"

definition logout_callback :: "storage \<Rightarrow> browser" where
  "logout_callback = logout_and_goto"

text \<open>\<open>selectRepo\<close> of the repositories page, the one writer of \<open>selected_repo\<close>.\<close>

definition selectRepo :: "string option \<Rightarrow> storage \<Rightarrow> browser" where
  "selectRepo selectedRepo s =
    (let b = \<lparr>storage = s, trace = []\<rparr>
     in case selectedRepo of
          None \<Rightarrow> b
        | Some repo \<Rightarrow> emit (Goto ''/dashboard'') (setItem ''selected_repo'' repo b))"

section \<open>Callback page: validation, exchange, identity check, commit\<close>

datatype failure =
    MissingParameter          \<comment> \<open>'Missing code or state parameter'\<close>
  | StateMismatch             \<comment> \<open>'Invalid state parameter - possible CSRF attack'\<close>
  | MissingVerifier           \<comment> \<open>'Missing code verifier'\<close>
  | TokenExchangeError string \<comment> \<open>'Token exchange failed: ' and the provider's message\<close>
  | IdentityFetchError        \<comment> \<open>'Failed to fetch user info'\<close>
  | Uncaught string           \<comment> \<open>any other exception that reaches the outer \<open>catch\<close>\<close>

datatype outcome = Processing | Committed string | Failed failure

record callback_page = browser +
  outcome :: outcome

definition callback_load :: "storage \<Rightarrow> callback_page" where
  "callback_load s = \<lparr>storage = s, trace = [], outcome = Processing\<rparr>"

text \<open>
  The outer \<open>catch\<close>: it records the error for display and touches nothing else.
\<close>

definition failed :: "failure \<Rightarrow> callback_page \<Rightarrow> callback_page" where
  "failed f p = p\<lparr>outcome := Failed f\<rparr>"

fun error_text :: "failure \<Rightarrow> string" where
  "error_text MissingParameter = ''Missing code or state parameter''"
| "error_text StateMismatch = ''Invalid state parameter - possible CSRF attack''"
| "error_text MissingVerifier = ''Missing code verifier''"
| "error_text (TokenExchangeError m) =
     ''Token exchange failed: '' @ (if m = [] then ''Unknown error'' else m)"
| "error_text IdentityFetchError = ''Failed to fetch user info''"
| "error_text (Uncaught m) = m"

text \<open>
  \<open>onMount\<close> of the callback page is one \<open>async\<close> function inside one
  \<open>try\<close>/\<open>catch\<close>. It is written here as its four phases, each handing over to the
  next: the commit (from "Store the access token securely" to the timer that redirects),
  the identity check ("Fetching user info..."), the exchange ("Exchanging code for access
  token..."), and the validation of the callback parameters that starts the handler.
  The JWT decoding and the console output between the commit and the cleanup have no
  effect on storage or network and are left out; the token-info request is issued inside
  its own \<open>try\<close>/\<open>catch\<close> and its answer is only logged. Reading \<open>username\<close> off a
  \<open>null\<close> profile throws into the outer \<open>catch\<close>.
\<close>

definition commit :: "tokens \<Rightarrow> string \<Rightarrow> json \<Rightarrow> callback_page \<Rightarrow> callback_page" where
  "commit tk token profile p =
    (let p = setItem ''gitlab_access_token'' token p
     in case refreshToken tk of
          Throws m \<Rightarrow> failed (Uncaught m) p
        | Returns refresh \<Rightarrow>
            let p = (case refresh of
                       None \<Rightarrow> p
                     | Some r \<Rightarrow> if r = [] then p else setItem ''gitlab_refresh_token'' r p);
                p = emit (Request (GetTokenInfo token)) p;
                p = removeItem ''oauth_state'' p;
                p = removeItem ''code_verifier'' p
            in case profile of
                 JNull \<Rightarrow> failed (Uncaught ''Cannot read properties of null'') p
               | JValue username \<Rightarrow> emit (Goto ''/repos'') (p\<lparr>outcome := Committed username\<rparr>))"

definition fetchUserInfo :: "world \<Rightarrow> tokens \<Rightarrow> callback_page \<Rightarrow> callback_page" where
  "fetchUserInfo w tk p =
    (case accessToken tk of
       Throws m \<Rightarrow> failed (Uncaught m) p
     | Returns token \<Rightarrow>
         let p = emit (Request (GetUser token)) p
         in case fetchUser w token of
              Throws m \<Rightarrow> failed (Uncaught m) p
            | Returns userResponse \<Rightarrow>
                if \<not> ok userResponse then failed IdentityFetchError p
                else
                  (case json_body userResponse of
                     Throws m \<Rightarrow> failed (Uncaught m) p
                   | Returns profile \<Rightarrow> commit tk token profile p))"

definition exchangeCode :: "world \<Rightarrow> string \<Rightarrow> string \<Rightarrow> callback_page \<Rightarrow> callback_page" where
  "exchangeCode w c codeVerifier p =
    (let p = emit (Request (TokenExchange c codeVerifier)) p
     in case validateAuthorizationCode w c codeVerifier of
          Throws m \<Rightarrow> failed (TokenExchangeError m) p
        | Returns tk \<Rightarrow> fetchUserInfo w tk p)"

text \<open>
  The handler itself, on the query parameters \<open>code\<close> and \<open>state\<close>
  (\<open>URLSearchParams.get\<close>: \<open>null\<close> when the parameter is missing). Past the
  three checks \<open>code\<close> and the stored verifier are strings, which the last
  \<open>case\<close> unpacks; its other branch is never taken.
\<close>

definition onMount :: "world \<Rightarrow> string option \<Rightarrow> string option \<Rightarrow> storage \<Rightarrow> callback_page" where
  "onMount w code state s =
    (let p = callback_load s
     in if \<not> truthy code \<or> \<not> truthy state then failed MissingParameter p
        else
          let storedState = getItem p ''oauth_state''
          in if \<not> truthy storedState \<or> state \<noteq> storedState then failed StateMismatch p
             else
               let codeVerifier = getItem p ''code_verifier''
               in if \<not> truthy codeVerifier then failed MissingVerifier p
                  else
                    (case (code, codeVerifier) of
                       (Some c, Some v) \<Rightarrow> exchangeCode w c v p
                     | _ \<Rightarrow> p))"

section \<open>Vocabulary of the properties\<close>

text \<open>The four storage keys of the authentication core.\<close>

definition core_keys :: "string set" where
  "core_keys = {''oauth_state'', ''code_verifier'', ''gitlab_access_token'', ''gitlab_refresh_token''}"

text \<open>
  The failures raised by the handler's own checks, as opposed to an exception of a
  library or network call that merely passes through the outer \<open>catch\<close>.
\<close>

fun guarded_failure :: "failure \<Rightarrow> bool" where
  "guarded_failure (Uncaught m) = False"
| "guarded_failure _ = True"

text \<open>The keys removed by a trace, in order.\<close>

definition removed_keys :: "event list \<Rightarrow> string list" where
  "removed_keys evs = concat (map (\<lambda>e. case e of StorageRemove k \<Rightarrow> [k] | _ \<Rightarrow> []) evs)"

text \<open>The two steps of login initiation that hand the flow over to the provider.\<close>

fun is_redirect_step :: "event \<Rightarrow> bool" where
  "is_redirect_step (BuildURL st v) = True"
| "is_redirect_step (Navigate url) = True"
| "is_redirect_step _ = False"

section \<open>Example worlds\<close>

definition alice_tokens :: tokens where
  "alice_tokens = \<lparr>accessToken = Returns ''T'', refreshToken = Returns (Some ''R'')\<rparr>"

definition alice_world :: world where
  "alice_world =
    \<lparr>generateState = Returns ''S1'',
     generateCodeVerifier = Returns ''V1'',
     createAuthorizationURLWithPKCE = (\<lambda>st v. Returns (''https://gitlab/oauth/authorize?state='' @ st)),
     validateAuthorizationCode = (\<lambda>c v. Returns alice_tokens),
     fetchUser = (\<lambda>t. Returns \<lparr>ok = True, json_body = Returns (JValue ''alice'')\<rparr>)\<rparr>"

definition mallory_world :: world where
  "mallory_world = alice_world\<lparr>validateAuthorizationCode := (\<lambda>c v. Throws ''invalid_grant'')\<rparr>"

definition carol_tokens :: tokens where
  "carol_tokens =
     \<lparr>accessToken = Returns ''T'', refreshToken = Throws ''Missing or invalid refresh_token field''\<rparr>"

definition carol_world :: world where
  "carol_world = alice_world\<lparr>validateAuthorizationCode := (\<lambda>c v. Returns carol_tokens)\<rparr>"

definition garbled_world :: world where
  "garbled_world =
     alice_world\<lparr>fetchUser := (\<lambda>t. Returns \<lparr>ok = True, json_body = Throws ''Unexpected end of JSON input''\<rparr>)\<rparr>"

definition rejecting_world :: world where
  "rejecting_world =
     alice_world\<lparr>fetchUser := (\<lambda>t. Returns \<lparr>ok = False, json_body = Returns JNull\<rparr>)\<rparr>"

definition offline_world :: world where
  "offline_world = alice_world\<lparr>fetchUser := (\<lambda>t. Throws ''Failed to fetch'')\<rparr>"

definition logged_in :: storage where
  "logged_in = [''gitlab_access_token'' \<mapsto> ''T'', ''gitlab_refresh_token'' \<mapsto> ''R'']"

definition pending_login :: storage where
  "pending_login = [''oauth_state'' \<mapsto> ''S1'', ''code_verifier'' \<mapsto> ''V1'']"

section \<open>Basic facts about storage and traces\<close>

lemmas prims = getItem_def setItem_def removeItem_def emit_def failed_def
  callback_load_def home_load_def Let_def

lemma replay_simps:
  "replay [] s = s"
  "replay (e # evs) s = replay evs (apply_event s e)"
  "replay (evs @ evs') s = replay evs' (replay evs s)"
  by (simp_all add: replay_def)

lemma touched_keys_simps:
  "touched_keys [] = {}"
  "touched_keys (e # evs) = touched e \<union> touched_keys evs"
  "touched_keys (evs @ evs') = touched_keys evs \<union> touched_keys evs'"
  by (auto simp: touched_keys_def)

lemma removed_keys_simps:
  "removed_keys [] = []"
  "removed_keys (StorageRemove k # evs) = k # removed_keys evs"
  "removed_keys (StorageSet k v # evs) = removed_keys evs"
  "removed_keys (Request r # evs) = removed_keys evs"
  "removed_keys (Goto u # evs) = removed_keys evs"
  "removed_keys (evs @ evs') = removed_keys evs @ removed_keys evs'"
  by (simp_all add: removed_keys_def)

lemma apply_event_untouched: "k \<notin> touched e \<Longrightarrow> apply_event s e k = s k"
  by (cases e) simp_all

lemma replay_untouched: "k \<notin> touched_keys evs \<Longrightarrow> replay evs s k = s k"
proof (induction evs arbitrary: s)
  case Nil
  show ?case by (simp add: replay_simps)
next
  case (Cons e evs)
  from Cons.prems have e: "k \<notin> touched e" and evs: "k \<notin> touched_keys evs"
    by (simp_all add: touched_keys_simps)
  have "replay (e # evs) s k = replay evs (apply_event s e) k"
    by (simp add: replay_simps)
  also have "\<dots> = apply_event s e k"
    using evs by (rule Cons.IH)
  also have "\<dots> = s k"
    using e by (rule apply_event_untouched)
  finally show ?case .
qed

section \<open>The callback handler, phase by phase\<close>

subsection \<open>commit\<close>

lemma commit_committed:
  assumes "outcome (commit tk t pr p) = Committed u"
  shows "getItem (commit tk t pr p) ''oauth_state'' = None \<and>
         getItem (commit tk t pr p) ''code_verifier'' = None \<and>
         getItem (commit tk t pr p) ''gitlab_access_token'' = Some t \<and>
         removed_keys (trace (commit tk t pr p)) = removed_keys (trace p) @ [''oauth_state'', ''code_verifier'']"
  using assms
  by (cases "refreshToken tk"; cases pr; simp add: commit_def prims removed_keys_simps split: option.splits)

lemma commit_not_guarded:
  "outcome (commit tk t pr p) = Failed f \<Longrightarrow> \<not> guarded_failure f"
  by (cases "refreshToken tk"; cases pr; simp add: commit_def prims split: option.splits; auto)

lemma commit_replay:
  "storage p = replay (trace p) s \<Longrightarrow>
     storage (commit tk t pr p) = replay (trace (commit tk t pr p)) s"
  by (cases "refreshToken tk"; cases pr; simp add: commit_def prims replay_simps split: option.splits)

lemma commit_touched:
  "touched_keys (trace (commit tk t pr p)) \<subseteq> touched_keys (trace p) \<union> core_keys"
  by (cases "refreshToken tk"; cases pr;
      simp add: commit_def prims touched_keys_simps core_keys_def split: option.splits; blast)

lemma commit_trace:
  "\<exists>evs. trace (commit tk t pr p) = trace p @ StorageSet ''gitlab_access_token'' t # evs"
  by (cases "refreshToken tk"; cases pr; simp add: commit_def prims split: option.splits)

lemma commit_finished: "outcome (commit tk t pr p) \<noteq> Processing"
  by (cases "refreshToken tk"; cases pr; simp add: commit_def prims split: option.splits)

subsection \<open>fetchUserInfo\<close>

lemma fetchUserInfo_cases:
  obtains (token_throws) m where "accessToken tk = Throws m" "fetchUserInfo w tk p = failed (Uncaught m) p"
  | (fetch_throws) t m where "accessToken tk = Returns t" "fetchUser w t = Throws m"
      "fetchUserInfo w tk p = failed (Uncaught m) (emit (Request (GetUser t)) p)"
  | (not_ok) t resp where "accessToken tk = Returns t" "fetchUser w t = Returns resp" "\<not> ok resp"
      "fetchUserInfo w tk p = failed IdentityFetchError (emit (Request (GetUser t)) p)"
  | (json_throws) t resp m where "accessToken tk = Returns t" "fetchUser w t = Returns resp" "ok resp"
      "json_body resp = Throws m"
      "fetchUserInfo w tk p = failed (Uncaught m) (emit (Request (GetUser t)) p)"
  | (commits) t resp pr where "accessToken tk = Returns t" "fetchUser w t = Returns resp" "ok resp"
      "json_body resp = Returns pr"
      "fetchUserInfo w tk p = commit tk t pr (emit (Request (GetUser t)) p)"
proof (cases "accessToken tk")
  case (Throws m)
  then show ?thesis by (intro token_throws [of m]) (simp_all add: fetchUserInfo_def)
next
  case t: (Returns t)
  show ?thesis
  proof (cases "fetchUser w t")
    case (Throws m)
    with t show ?thesis by (intro fetch_throws [of t m]) (simp_all add: fetchUserInfo_def Let_def)
  next
    case r: (Returns resp)
    show ?thesis
    proof (cases "ok resp")
      case False
      with t r show ?thesis by (intro not_ok [of t resp]) (simp_all add: fetchUserInfo_def Let_def)
    next
      case True
      show ?thesis
      proof (cases "json_body resp")
        case (Throws m)
        with t r True show ?thesis
          by (intro json_throws [of t resp m]) (simp_all add: fetchUserInfo_def Let_def)
      next
        case (Returns pr)
        with t r True show ?thesis
          by (intro commits [of t resp pr]) (simp_all add: fetchUserInfo_def Let_def)
      qed
    qed
  qed
qed

lemma fetchUserInfo_committed:
  assumes "outcome (fetchUserInfo w tk p) = Committed u"
  shows "getItem (fetchUserInfo w tk p) ''oauth_state'' = None \<and>
         getItem (fetchUserInfo w tk p) ''code_verifier'' = None \<and>
         removed_keys (trace (fetchUserInfo w tk p)) = removed_keys (trace p) @ [''oauth_state'', ''code_verifier'']"
proof (cases w tk p rule: fetchUserInfo_cases)
  case (commits t resp pr)
  with assms commit_committed [of tk t pr "emit (Request (GetUser t)) p" u] show ?thesis
    by (simp add: emit_def removed_keys_simps)
qed (use assms in \<open>simp_all add: failed_def\<close>)

lemma fetchUserInfo_guarded:
  assumes "outcome (fetchUserInfo w tk p) = Failed f" and "guarded_failure f"
  shows "storage (fetchUserInfo w tk p) = storage p \<and>
         touched_keys (trace (fetchUserInfo w tk p)) = touched_keys (trace p)"
proof (cases w tk p rule: fetchUserInfo_cases)
  case (commits t resp pr)
  with assms commit_not_guarded [of tk t pr "emit (Request (GetUser t)) p" f] show ?thesis
    by simp
qed (use assms in \<open>auto simp add: failed_def emit_def touched_keys_simps\<close>)

lemma fetchUserInfo_replay:
  assumes "storage p = replay (trace p) s"
  shows "storage (fetchUserInfo w tk p) = replay (trace (fetchUserInfo w tk p)) s"
proof (cases w tk p rule: fetchUserInfo_cases)
  case (commits t resp pr)
  with assms commit_replay [of "emit (Request (GetUser t)) p" s tk t pr] show ?thesis
    by (simp add: emit_def replay_simps)
qed (use assms in \<open>simp_all add: failed_def emit_def replay_simps\<close>)

lemma fetchUserInfo_touched:
  "touched_keys (trace (fetchUserInfo w tk p)) \<subseteq> touched_keys (trace p) \<union> core_keys"
proof (cases w tk p rule: fetchUserInfo_cases)
  case (commits t resp pr)
  with commit_touched [of tk t pr "emit (Request (GetUser t)) p"] show ?thesis
    by (simp add: emit_def touched_keys_simps)
qed (simp_all add: failed_def emit_def touched_keys_simps)

lemma fetchUserInfo_trace:
  "\<exists>evs. trace (fetchUserInfo w tk p) = trace p @ evs"
proof (cases w tk p rule: fetchUserInfo_cases)
  case (commits t resp pr)
  with commit_trace [of tk t pr "emit (Request (GetUser t)) p"] show ?thesis
    by (auto simp add: emit_def)
qed (simp_all add: failed_def emit_def)

lemma fetchUserInfo_failure:
  assumes "outcome (fetchUserInfo w tk p) = Failed f" and "guarded_failure f"
  shows "f = IdentityFetchError"
proof (cases w tk p rule: fetchUserInfo_cases)
  case (commits t resp pr)
  with assms commit_not_guarded [of tk t pr "emit (Request (GetUser t)) p" f] show ?thesis
    by simp
qed (use assms in \<open>auto simp add: failed_def\<close>)

lemma fetchUserInfo_finished: "outcome (fetchUserInfo w tk p) \<noteq> Processing"
proof (cases w tk p rule: fetchUserInfo_cases)
  case (commits t resp pr)
  with commit_finished [of tk t pr "emit (Request (GetUser t)) p"] show ?thesis
    by simp
qed (simp_all add: failed_def)

subsection \<open>exchangeCode\<close>

lemma exchangeCode_cases:
  obtains (exchange_throws) m where "validateAuthorizationCode w c v = Throws m"
      "exchangeCode w c v p = failed (TokenExchangeError m) (emit (Request (TokenExchange c v)) p)"
  | (exchanged) tk where "validateAuthorizationCode w c v = Returns tk"
      "exchangeCode w c v p = fetchUserInfo w tk (emit (Request (TokenExchange c v)) p)"
  by (cases "validateAuthorizationCode w c v") (simp_all add: exchangeCode_def Let_def)

lemma exchangeCode_committed:
  assumes "outcome (exchangeCode w c v p) = Committed u"
  shows "getItem (exchangeCode w c v p) ''oauth_state'' = None \<and>
         getItem (exchangeCode w c v p) ''code_verifier'' = None \<and>
         removed_keys (trace (exchangeCode w c v p)) = removed_keys (trace p) @ [''oauth_state'', ''code_verifier'']"
proof (cases w c v p rule: exchangeCode_cases)
  case (exchanged tk)
  with assms fetchUserInfo_committed [of w tk "emit (Request (TokenExchange c v)) p" u]
  show ?thesis by (simp add: emit_def removed_keys_simps)
qed (use assms in \<open>simp add: failed_def\<close>)

lemma exchangeCode_guarded:
  assumes "outcome (exchangeCode w c v p) = Failed f" and "guarded_failure f"
  shows "storage (exchangeCode w c v p) = storage p \<and>
         touched_keys (trace (exchangeCode w c v p)) = touched_keys (trace p)"
proof (cases w c v p rule: exchangeCode_cases)
  case (exchanged tk)
  with assms fetchUserInfo_guarded [of w tk "emit (Request (TokenExchange c v)) p" f]
  show ?thesis by (simp add: emit_def touched_keys_simps)
qed (simp add: failed_def emit_def touched_keys_simps)

lemma exchangeCode_replay:
  assumes "storage p = replay (trace p) s"
  shows "storage (exchangeCode w c v p) = replay (trace (exchangeCode w c v p)) s"
proof (cases w c v p rule: exchangeCode_cases)
  case (exchanged tk)
  with assms fetchUserInfo_replay [of "emit (Request (TokenExchange c v)) p" s w tk]
  show ?thesis by (simp add: emit_def replay_simps)
qed (use assms in \<open>simp add: failed_def emit_def replay_simps\<close>)

lemma exchangeCode_touched:
  "touched_keys (trace (exchangeCode w c v p)) \<subseteq> touched_keys (trace p) \<union> core_keys"
proof (cases w c v p rule: exchangeCode_cases)
  case (exchanged tk)
  with fetchUserInfo_touched [of w tk "emit (Request (TokenExchange c v)) p"]
  show ?thesis by (simp add: emit_def touched_keys_simps)
qed (simp add: failed_def emit_def touched_keys_simps)

lemma exchangeCode_trace:
  "\<exists>evs. trace (exchangeCode w c v p) = trace p @ Request (TokenExchange c v) # evs"
proof (cases w c v p rule: exchangeCode_cases)
  case (exchanged tk)
  with fetchUserInfo_trace [of w tk "emit (Request (TokenExchange c v)) p"] show ?thesis
    by (auto simp add: emit_def)
qed (simp add: failed_def emit_def)

lemma exchangeCode_failure:
  assumes "outcome (exchangeCode w c v p) = Failed f" and "guarded_failure f"
  shows "f = IdentityFetchError \<or> (\<exists>m. f = TokenExchangeError m)"
proof (cases w c v p rule: exchangeCode_cases)
  case (exchanged tk)
  with assms fetchUserInfo_failure [of w tk "emit (Request (TokenExchange c v)) p" f] show ?thesis
    by simp
qed (use assms in \<open>auto simp add: failed_def\<close>)

lemma exchangeCode_finished: "outcome (exchangeCode w c v p) \<noteq> Processing"
proof (cases w c v p rule: exchangeCode_cases)
  case (exchanged tk)
  with fetchUserInfo_finished [of w tk "emit (Request (TokenExchange c v)) p"] show ?thesis
    by simp
qed (simp add: failed_def)

subsection \<open>onMount\<close>

lemma onMount_cases:
  obtains (missing_parameter) "\<not> truthy code \<or> \<not> truthy state"
      "onMount w code state s = failed MissingParameter (callback_load s)"
  | (state_mismatch) "truthy code" "truthy state" "s ''oauth_state'' \<noteq> state"
      "onMount w code state s = failed StateMismatch (callback_load s)"
  | (missing_verifier) "truthy code" "truthy state" "s ''oauth_state'' = state"
      "\<not> truthy (s ''code_verifier'')"
      "onMount w code state s = failed MissingVerifier (callback_load s)"
  | (exchanges) c v where "code = Some c" "c \<noteq> []" "truthy state" "s ''oauth_state'' = state"
      "s ''code_verifier'' = Some v" "v \<noteq> []"
      "onMount w code state s = exchangeCode w c v (callback_load s)"
proof (cases "\<not> truthy code \<or> \<not> truthy state")
  case True
  then show ?thesis
    by (intro missing_parameter) (simp_all add: onMount_def Let_def)
next
  case present: False
  show ?thesis
  proof (cases "s ''oauth_state'' = state")
    case False
    with present show ?thesis
      by (intro state_mismatch) (simp_all add: onMount_def Let_def getItem_def callback_load_def)
  next
    case same: True
    with present have stored: "truthy (s ''oauth_state'')" by simp
    show ?thesis
    proof (cases "truthy (s ''code_verifier'')")
      case False
      with present same stored show ?thesis
        by (intro missing_verifier) (simp_all add: onMount_def Let_def getItem_def callback_load_def)
    next
      case True
      then obtain v where v: "s ''code_verifier'' = Some v" "v \<noteq> []"
        by (auto simp: truthy_def split: option.splits)
      from present obtain c where c: "code = Some c" "c \<noteq> []"
        by (auto simp: truthy_def split: option.splits)
      from present same stored True c v show ?thesis
        by (intro exchanges [of c v]) (simp_all add: onMount_def Let_def getItem_def callback_load_def)
    qed
  qed
qed

lemma onMount_committed:
  assumes "outcome (onMount w code state s) = Committed u"
  shows "getItem (onMount w code state s) ''oauth_state'' = None \<and>
         getItem (onMount w code state s) ''code_verifier'' = None \<and>
         removed_keys (trace (onMount w code state s)) = [''oauth_state'', ''code_verifier'']"
proof (cases w code state s rule: onMount_cases)
  case (exchanges c v)
  with assms exchangeCode_committed [of w c v "callback_load s" u]
  show ?thesis by (simp add: callback_load_def removed_keys_simps)
qed (use assms in \<open>simp_all add: failed_def\<close>)

lemma onMount_guarded:
  assumes "outcome (onMount w code state s) = Failed f" and "guarded_failure f"
  shows "storage (onMount w code state s) = s \<and> touched_keys (trace (onMount w code state s)) = {}"
proof (cases w code state s rule: onMount_cases)
  case (exchanges c v)
  with assms exchangeCode_guarded [of w c v "callback_load s" f]
  show ?thesis by (simp add: callback_load_def touched_keys_simps)
qed (simp_all add: failed_def callback_load_def touched_keys_simps)

lemma onMount_replay:
  "storage (onMount w code state s) = replay (trace (onMount w code state s)) s"
proof (cases w code state s rule: onMount_cases)
  case (exchanges c v)
  with exchangeCode_replay [of "callback_load s" s w c v]
  show ?thesis by (simp add: callback_load_def replay_simps)
qed (simp_all add: failed_def callback_load_def replay_simps)

lemma onMount_touched:
  "touched_keys (trace (onMount w code state s)) \<subseteq> core_keys"
proof (cases w code state s rule: onMount_cases)
  case (exchanges c v)
  with exchangeCode_touched [of w c v "callback_load s"]
  show ?thesis by (simp add: callback_load_def touched_keys_simps)
qed (simp_all add: failed_def callback_load_def touched_keys_simps)

lemma onMount_frame:
  "k \<notin> core_keys \<Longrightarrow> getItem (onMount w code state s) k = s k"
  using onMount_touched [of w code state s] replay_untouched [of k "trace (onMount w code state s)" s]
  by (auto simp: getItem_def onMount_replay [symmetric])

text \<open>Every run of the handler ends committed or failed.\<close>

lemma onMount_finished: "outcome (onMount w code state s) \<noteq> Processing"
proof (cases w code state s rule: onMount_cases)
  case (exchanges c v)
  with exchangeCode_finished [of w c v "callback_load s"] show ?thesis
    by simp
qed (simp_all add: failed_def)

section \<open>Login initiation, path by path\<close>

lemma loginWithGitLab_cases:
  obtains (no_state) m where "generateState w = Throws m" "loginWithGitLab w s = \<lparr>storage = s, trace = []\<rparr>"
  | (no_verifier) st m where "generateState w = Returns st" "generateCodeVerifier w = Throws m"
      "loginWithGitLab w s = \<lparr>storage = s, trace = []\<rparr>"
  | (no_url) st v m where "generateState w = Returns st" "generateCodeVerifier w = Returns v"
      "createAuthorizationURLWithPKCE w st v = Throws m"
      "loginWithGitLab w s =
         \<lparr>storage = s(''oauth_state'' \<mapsto> st, ''code_verifier'' \<mapsto> v),
          trace = [StorageSet ''oauth_state'' st, StorageSet ''code_verifier'' v, BuildURL st v]\<rparr>"
  | (redirects) st v url where "generateState w = Returns st" "generateCodeVerifier w = Returns v"
      "createAuthorizationURLWithPKCE w st v = Returns url"
      "loginWithGitLab w s =
         \<lparr>storage = s(''oauth_state'' \<mapsto> st, ''code_verifier'' \<mapsto> v),
          trace = [StorageSet ''oauth_state'' st, StorageSet ''code_verifier'' v, BuildURL st v,
                   Navigate url]\<rparr>"
proof (cases "generateState w")
  case (Throws m)
  then show ?thesis by (intro no_state [of m]) (simp_all add: loginWithGitLab_def)
next
  case st: (Returns st)
  show ?thesis
  proof (cases "generateCodeVerifier w")
    case (Throws m)
    with st show ?thesis by (intro no_verifier [of st m]) (simp_all add: loginWithGitLab_def)
  next
    case v: (Returns v)
    show ?thesis
    proof (cases "createAuthorizationURLWithPKCE w st v")
      case (Throws m)
      with st v show ?thesis
        by (intro no_url [of st v m]) (simp_all add: loginWithGitLab_def prims)
    next
      case (Returns url)
      with st v show ?thesis
        by (intro redirects [of st v url]) (simp_all add: loginWithGitLab_def prims)
    qed
  qed
qed

lemma loginWithGitLab_touched:
  "touched_keys (trace (loginWithGitLab w s)) \<subseteq> {''oauth_state'', ''code_verifier''}"
  by (cases w s rule: loginWithGitLab_cases) (simp_all add: touched_keys_simps)

section \<open>Logout, on every page\<close>

lemmas logouts = logout_home_def logout_repos_def logout_dashboard_def logout_callback_def
  logout_and_goto_def

lemma logout_home_storage: "storage (logout_home s) = s |` (- core_keys)"
  by (rule ext) (simp add: logouts prims restrict_map_def core_keys_def)

lemma logout_and_goto_storage:
  "storage (logout_and_goto s) = s |` (- insert ''selected_repo'' core_keys)"
  by (rule ext) (simp add: logouts prims restrict_map_def core_keys_def)

lemma logout_traces:
  "trace (logout_home s) =
     [StorageRemove ''gitlab_access_token'', StorageRemove ''gitlab_refresh_token'',
      StorageRemove ''oauth_state'', StorageRemove ''code_verifier'']"
  "trace (logout_and_goto s) =
     [StorageRemove ''gitlab_access_token'', StorageRemove ''gitlab_refresh_token'',
      StorageRemove ''oauth_state'', StorageRemove ''code_verifier'',
      StorageRemove ''selected_repo'', Goto ''/'']"
  by (simp_all add: logouts prims)

lemma token_keys_core:
  "''gitlab_access_token'' \<in> core_keys" "''gitlab_refresh_token'' \<in> core_keys"
  "''oauth_state'' \<in> core_keys" "''code_verifier'' \<in> core_keys"
  "''selected_repo'' \<notin> core_keys"
  by (simp_all add: core_keys_def)

lemma logout_clears_core:
  assumes "k \<in> core_keys"
  shows "getItem (logout_home s) k = None \<and> getItem (logout_and_goto s) k = None"
  using assms by (simp add: getItem_def logout_home_storage logout_and_goto_storage)

lemma logout_home_touched: "touched_keys (trace (logout_home s)) = core_keys"
  by (auto simp add: logout_traces touched_keys_simps core_keys_def)

section \<open>Properties of the authentication flow\<close>

lemmas run = onMount_def exchangeCode_def fetchUserInfo_def commit_def truthy_def prims
lemmas worlds = alice_world_def alice_tokens_def mallory_world_def carol_world_def carol_tokens_def
  garbled_world_def rejecting_world_def offline_world_def pending_login_def logged_in_def

text \<open>
  C1. A callback that carries a code and a state is checked against the stored
  \<open>oauth_state\<close>. When the stored state is absent or differs from the received one, the
  run fails with \<open>StateMismatch\<close> and performs no effect at all, so no token-exchange
  request is issued. When the stored state equals the received one, the run does not fail
  with \<open>StateMismatch\<close>, and with a stored code verifier its first effect is the
  token-exchange request for the received code and that verifier.
\<close>

theorem state_validation:
  assumes "c \<noteq> []" and "st \<noteq> []"
  shows "(s ''oauth_state'' \<noteq> Some st \<longrightarrow>
            outcome (onMount w (Some c) (Some st) s) = Failed StateMismatch \<and>
            trace (onMount w (Some c) (Some st) s) = []) \<and>
         (s ''oauth_state'' = Some st \<longrightarrow>
            outcome (onMount w (Some c) (Some st) s) \<noteq> Failed StateMismatch \<and>
            (\<forall>v. s ''code_verifier'' = Some v \<and> v \<noteq> [] \<longrightarrow>
               (\<exists>rest. trace (onMount w (Some c) (Some st) s) = Request (TokenExchange c v) # rest)) \<and>
            (\<not> truthy (s ''code_verifier'') \<longrightarrow>
               outcome (onMount w (Some c) (Some st) s) = Failed MissingVerifier \<and>
               trace (onMount w (Some c) (Some st) s) = []))"
proof (cases w "Some c" "Some st" s rule: onMount_cases)
  case missing_parameter
  with assms show ?thesis by (simp add: truthy_def)
next
  case state_mismatch
  then show ?thesis by (simp add: failed_def callback_load_def)
next
  case missing_verifier
  then show ?thesis by (auto simp add: failed_def callback_load_def truthy_def)
next
  case (exchanges c' v)
  then have run: "onMount w (Some c) (Some st) s = exchangeCode w c v (callback_load s)"
    by simp
  have "outcome (exchangeCode w c v (callback_load s)) \<noteq> Failed StateMismatch"
    using exchangeCode_failure [of w c v "callback_load s" StateMismatch] by auto
  moreover have "\<exists>rest. trace (exchangeCode w c v (callback_load s)) = Request (TokenExchange c v) # rest"
    using exchangeCode_trace [of w c v "callback_load s"] by (simp add: callback_load_def)
  ultimately show ?thesis
    using exchanges run by (simp add: truthy_def)
qed

theorem state_validation_witness:
  "outcome (onMount alice_world (Some ''c'') (Some ''S2'') pending_login) = Failed StateMismatch \<and>
   trace (onMount alice_world (Some ''c'') (Some ''S2'') pending_login) = [] \<and>
   outcome (onMount alice_world (Some ''c'') (Some ''S1'') Map.empty) = Failed StateMismatch \<and>
   outcome (onMount alice_world (Some ''c'') (Some ''S1'') pending_login) \<noteq> Failed StateMismatch \<and>
   (\<exists>rest. trace (onMount alice_world (Some ''c'') (Some ''S1'') pending_login)
      = Request (TokenExchange ''c'' ''V1'') # rest) \<and>
   outcome (onMount alice_world (Some ''c'') (Some ''S1'') [''oauth_state'' \<mapsto> ''S1''])
     = Failed MissingVerifier"
  using state_validation [of "''c''" "''S2''" pending_login alice_world]
    state_validation [of "''c''" "''S1''" Map.empty alice_world]
    state_validation [of "''c''" "''S1''" pending_login alice_world]
    state_validation [of "''c''" "''S1''" "[''oauth_state'' \<mapsto> ''S1'']" alice_world]
  by (simp add: pending_login_def truthy_def)

text \<open>
  C2, as the code has it. Every run ends committed or failed. The cleanup of the flow
  parameters sits at the end of the \<open>try\<close> block: a run that commits leaves \<open>oauth_state\<close> and \<open>code_verifier\<close>
  absent, while a run that fails one of the handler's own checks leaves the storage as
  it found it, flow parameters included.
\<close>

theorem cleanup_on_commit:
  "outcome (onMount w code state s) \<noteq> Processing \<and>
   (\<forall>u. outcome (onMount w code state s) = Committed u \<longrightarrow>
      getItem (onMount w code state s) ''oauth_state'' = None \<and>
      getItem (onMount w code state s) ''code_verifier'' = None) \<and>
   (\<forall>f. outcome (onMount w code state s) = Failed f \<and> guarded_failure f \<longrightarrow>
      storage (onMount w code state s) = s)"
  using onMount_committed [of w code state s] onMount_guarded [of w code state s]
    onMount_finished [of w code state s]
  by blast

theorem cleanup_on_commit_witness:
  "outcome (onMount alice_world (Some ''c'') (Some ''S1'') pending_login) = Committed ''alice'' \<and>
   getItem (onMount alice_world (Some ''c'') (Some ''S1'') pending_login) ''oauth_state'' = None \<and>
   getItem (onMount alice_world (Some ''c'') (Some ''S1'') pending_login) ''code_verifier'' = None \<and>
   outcome (onMount alice_world None (Some ''S1'') pending_login) = Failed MissingParameter \<and>
   guarded_failure MissingParameter \<and>
   storage (onMount alice_world None (Some ''S1'') pending_login) = pending_login"
  using cleanup_on_commit [of alice_world "Some ''c''" "Some ''S1''" pending_login]
    cleanup_on_commit [of alice_world None "Some ''S1''" pending_login]
  by (simp add: run worlds)

text \<open>
  C2, as stated, fails: a callback whose state does not match ends in \<open>StateMismatch\<close>
  with both flow parameters still in the storage.
\<close>

theorem cleanup_counterexample:
  "outcome (onMount alice_world (Some ''c'') (Some ''S2'') pending_login) = Failed StateMismatch \<and>
   getItem (onMount alice_world (Some ''c'') (Some ''S2'') pending_login) ''oauth_state'' = Some ''S1'' \<and>
   getItem (onMount alice_world (Some ''c'') (Some ''S2'') pending_login) ''code_verifier'' = Some ''V1''"
  by (simp add: run worlds)

text \<open>
  C3. When the token endpoint answers the exchange with an error, the run ends in
  \<open>TokenExchangeError\<close> carrying the provider's message, the exchange is the only
  effect, and the storage is untouched: a storage without an access token still has none.
\<close>

theorem exchange_error_stores_nothing:
  assumes "c \<noteq> []" and "st \<noteq> []"
    and "s ''oauth_state'' = Some st"
    and "s ''code_verifier'' = Some v" and "v \<noteq> []"
    and "validateAuthorizationCode w c v = Throws m"
  shows "outcome (onMount w (Some c) (Some st) s) = Failed (TokenExchangeError m) \<and>
         trace (onMount w (Some c) (Some st) s) = [Request (TokenExchange c v)] \<and>
         storage (onMount w (Some c) (Some st) s) = s \<and>
         (s ''gitlab_access_token'' = None \<longrightarrow>
            getItem (onMount w (Some c) (Some st) s) ''gitlab_access_token'' = None)"
  using assms by (simp add: run)

theorem exchange_error_stores_nothing_witness:
  "outcome (onMount mallory_world (Some ''c'') (Some ''S1'') pending_login)
     = Failed (TokenExchangeError ''invalid_grant'') \<and>
   trace (onMount mallory_world (Some ''c'') (Some ''S1'') pending_login)
     = [Request (TokenExchange ''c'' ''V1'')] \<and>
   storage (onMount mallory_world (Some ''c'') (Some ''S1'') pending_login) = pending_login \<and>
   getItem (onMount mallory_world (Some ''c'') (Some ''S1'') pending_login) ''gitlab_access_token'' = None"
  using exchange_error_stores_nothing [of "''c''" "''S1''" pending_login "''V1''" mallory_world "''invalid_grant''"]
  by (simp add: worlds)

text \<open>
  C4, as the code has it. When the exchange returns a token and the identity fetch fails,
  nothing is written to the storage, so the token is not committed, and the two requests
  are the only effects. The reported failure depends on how the fetch fails: a non-ok
  response gives \<open>IdentityFetchError\<close>; a request that throws, or an ok response whose
  body cannot be parsed, gives the thrown error as it reaches the outer \<open>catch\<close>.
\<close>

theorem identity_failure_commits_nothing:
  assumes "c \<noteq> []" and "st \<noteq> []"
    and "s ''oauth_state'' = Some st"
    and "s ''code_verifier'' = Some v" and "v \<noteq> []"
    and "validateAuthorizationCode w c v = Returns tk"
    and "accessToken tk = Returns t"
  shows "(\<forall>resp. fetchUser w t = Returns resp \<and> \<not> ok resp \<longrightarrow>
            outcome (onMount w (Some c) (Some st) s) = Failed IdentityFetchError \<and>
            trace (onMount w (Some c) (Some st) s)
              = [Request (TokenExchange c v), Request (GetUser t)] \<and>
            storage (onMount w (Some c) (Some st) s) = s) \<and>
         (\<forall>m. fetchUser w t = Throws m \<longrightarrow>
            outcome (onMount w (Some c) (Some st) s) = Failed (Uncaught m) \<and>
            trace (onMount w (Some c) (Some st) s)
              = [Request (TokenExchange c v), Request (GetUser t)] \<and>
            storage (onMount w (Some c) (Some st) s) = s) \<and>
         (\<forall>resp m. fetchUser w t = Returns resp \<and> ok resp \<and> json_body resp = Throws m \<longrightarrow>
            outcome (onMount w (Some c) (Some st) s) = Failed (Uncaught m) \<and>
            trace (onMount w (Some c) (Some st) s)
              = [Request (TokenExchange c v), Request (GetUser t)] \<and>
            storage (onMount w (Some c) (Some st) s) = s)"
  using assms by (simp add: run)

theorem identity_failure_commits_nothing_witness:
  "outcome (onMount rejecting_world (Some ''c'') (Some ''S1'') pending_login)
     = Failed IdentityFetchError \<and>
   trace (onMount rejecting_world (Some ''c'') (Some ''S1'') pending_login)
     = [Request (TokenExchange ''c'' ''V1''), Request (GetUser ''T'')] \<and>
   storage (onMount rejecting_world (Some ''c'') (Some ''S1'') pending_login) = pending_login \<and>
   outcome (onMount offline_world (Some ''c'') (Some ''S1'') pending_login)
     = Failed (Uncaught ''Failed to fetch'') \<and>
   storage (onMount offline_world (Some ''c'') (Some ''S1'') pending_login) = pending_login \<and>
   outcome (onMount garbled_world (Some ''c'') (Some ''S1'') pending_login)
     = Failed (Uncaught ''Unexpected end of JSON input'') \<and>
   storage (onMount garbled_world (Some ''c'') (Some ''S1'') pending_login) = pending_login"
  using identity_failure_commits_nothing
      [of "''c''" "''S1''" pending_login "''V1''" rejecting_world alice_tokens "''T''"]
    identity_failure_commits_nothing
      [of "''c''" "''S1''" pending_login "''V1''" offline_world alice_tokens "''T''"]
    identity_failure_commits_nothing
      [of "''c''" "''S1''" pending_login "''V1''" garbled_world alice_tokens "''T''"]
  by (simp add: worlds)

text \<open>
  C4, as stated, fails: when the identity request throws, the run does not end in
  \<open>IdentityFetchError\<close> but in the error the request threw.
\<close>

theorem identity_failure_counterexample:
  "outcome (onMount offline_world (Some ''c'') (Some ''S1'') pending_login)
     = Failed (Uncaught ''Failed to fetch'') \<and>
   outcome (onMount offline_world (Some ''c'') (Some ''S1'') pending_login)
     \<noteq> Failed IdentityFetchError \<and>
   trace (onMount offline_world (Some ''c'') (Some ''S1'') pending_login)
     = [Request (TokenExchange ''c'' ''V1''), Request (GetUser ''T'')]"
  by (simp add: run worlds)

text \<open>
  The run the flow is built for: with matching state, a stored verifier, an exchange
  whose token object yields access token \<open>t\<close> and refresh token \<open>r\<close>, and an identity
  request answered ok with a user profile, the run commits, both tokens are stored and
  both flow parameters are gone.
\<close>

lemma callback_commits_with_refresh_token:
  assumes "c \<noteq> []" and "st \<noteq> []"
    and "s ''oauth_state'' = Some st"
    and "s ''code_verifier'' = Some v" and "v \<noteq> []"
    and "validateAuthorizationCode w c v = Returns tk"
    and "accessToken tk = Returns t"
    and "refreshToken tk = Returns (Some r)" and "r \<noteq> []"
    and "fetchUser w t = Returns resp" and "ok resp"
    and "json_body resp = Returns (JValue u)"
  shows "outcome (onMount w (Some c) (Some st) s) = Committed u \<and>
         getItem (onMount w (Some c) (Some st) s) ''gitlab_access_token'' = Some t \<and>
         getItem (onMount w (Some c) (Some st) s) ''gitlab_refresh_token'' = Some r \<and>
         getItem (onMount w (Some c) (Some st) s) ''oauth_state'' = None \<and>
         getItem (onMount w (Some c) (Some st) s) ''code_verifier'' = None"
  using assms by (simp add: run)

text \<open>
  C5, where the code departs from it. The page means to store the refresh token "if
  available", but it asks the token object for it right after writing the access token.
  When the token response carries an access token \<open>t\<close> and no refresh token, that call
  throws: the run does not commit but ends in the outer \<open>catch\<close>, with
  \<open>gitlab_access_token\<close> already holding \<open>t\<close>, both flow parameters left in the
  storage, and no redirect to the repositories page.
\<close>

theorem refresh_throw_aborts_commit:
  assumes "c \<noteq> []" and "st \<noteq> []"
    and "s ''oauth_state'' = Some st"
    and "s ''code_verifier'' = Some v" and "v \<noteq> []"
    and "validateAuthorizationCode w c v = Returns tk"
    and "accessToken tk = Returns t"
    and "refreshToken tk = Throws m"
    and "fetchUser w t = Returns resp" and "ok resp"
    and "json_body resp = Returns profile"
  shows "outcome (onMount w (Some c) (Some st) s) = Failed (Uncaught m) \<and>
         trace (onMount w (Some c) (Some st) s)
           = [Request (TokenExchange c v), Request (GetUser t), StorageSet ''gitlab_access_token'' t] \<and>
         getItem (onMount w (Some c) (Some st) s) ''gitlab_access_token'' = Some t \<and>
         getItem (onMount w (Some c) (Some st) s) ''oauth_state'' = Some st \<and>
         getItem (onMount w (Some c) (Some st) s) ''code_verifier'' = Some v"
  using assms by (simp add: run)

theorem refresh_throw_aborts_commit_witness:
  "outcome (onMount carol_world (Some ''c'') (Some ''S1'') pending_login)
     = Failed (Uncaught ''Missing or invalid refresh_token field'') \<and>
   trace (onMount carol_world (Some ''c'') (Some ''S1'') pending_login)
     = [Request (TokenExchange ''c'' ''V1''), Request (GetUser ''T''),
        StorageSet ''gitlab_access_token'' ''T''] \<and>
   getItem (onMount carol_world (Some ''c'') (Some ''S1'') pending_login) ''gitlab_access_token'' = Some ''T'' \<and>
   getItem (onMount carol_world (Some ''c'') (Some ''S1'') pending_login) ''oauth_state'' = Some ''S1'' \<and>
   getItem (onMount carol_world (Some ''c'') (Some ''S1'') pending_login) ''code_verifier'' = Some ''V1''"
  using refresh_throw_aborts_commit
    [of "''c''" "''S1''" pending_login "''V1''" carol_world carol_tokens "''T''"
        "''Missing or invalid refresh_token field''"
        "\<lparr>ok = True, json_body = Returns (JValue ''alice'')\<rparr>" "JValue ''alice''"]
  by (simp add: worlds)

text \<open>
  C7. In every execution of \<open>loginWithGitLab\<close>, at the step that builds the
  authorization URL and at the step that navigates to the provider, the session storage
  already holds the generated state under \<open>oauth_state\<close> and the generated verifier
  under \<open>code_verifier\<close>: the two writes are the first two effects of the handler, both
  redirect steps come after them, and the storage as it stands at either redirect step is
  the storage the handler leaves behind, the one it found with the two parameters written.
\<close>

theorem login_persists_before_redirect:
  assumes "i < length (trace (loginWithGitLab w s))"
    and "is_redirect_step (trace (loginWithGitLab w s) ! i)"
  shows "\<exists>st v. generateState w = Returns st \<and> generateCodeVerifier w = Returns v \<and>
           take 2 (trace (loginWithGitLab w s))
             = [StorageSet ''oauth_state'' st, StorageSet ''code_verifier'' v] \<and>
           2 \<le> i \<and>
           replay (take i (trace (loginWithGitLab w s))) s ''oauth_state'' = Some st \<and>
           replay (take i (trace (loginWithGitLab w s))) s ''code_verifier'' = Some v \<and>
           replay (take i (trace (loginWithGitLab w s))) s = storage (loginWithGitLab w s) \<and>
           storage (loginWithGitLab w s) = s(''oauth_state'' \<mapsto> st, ''code_verifier'' \<mapsto> v) \<and>
           getItem (loginWithGitLab w s) ''oauth_state'' = Some st \<and>
           getItem (loginWithGitLab w s) ''code_verifier'' = Some v"
proof (cases w s rule: loginWithGitLab_cases)
  case (no_state m)
  with assms show ?thesis by simp
next
  case (no_verifier st m)
  with assms show ?thesis by simp
next
  case (no_url st v m)
  with assms have "i = 2"
    by (auto simp: less_Suc_eq numeral_3_eq_3)
  with no_url show ?thesis
    by (simp add: replay_simps getItem_def)
next
  case (redirects st v url)
  with assms have "i = 2 \<or> i = 3"
    by (auto simp: less_Suc_eq numeral_3_eq_3 numeral_2_eq_2)
  with redirects show ?thesis
    by (auto simp: replay_simps numeral_3_eq_3 getItem_def)
qed

theorem login_persists_before_redirect_witness:
  "(3::nat) < length (trace (loginWithGitLab alice_world Map.empty)) \<and>
   trace (loginWithGitLab alice_world Map.empty) ! 3 = Navigate ''https://gitlab/oauth/authorize?state=S1'' \<and>
   take 2 (trace (loginWithGitLab alice_world Map.empty))
     = [StorageSet ''oauth_state'' ''S1'', StorageSet ''code_verifier'' ''V1''] \<and>
   replay (take 3 (trace (loginWithGitLab alice_world Map.empty))) Map.empty ''oauth_state'' = Some ''S1'' \<and>
   replay (take 3 (trace (loginWithGitLab alice_world Map.empty))) Map.empty ''code_verifier'' = Some ''V1'' \<and>
   replay (take 3 (trace (loginWithGitLab alice_world Map.empty))) Map.empty
     = storage (loginWithGitLab alice_world Map.empty) \<and>
   storage (loginWithGitLab alice_world Map.empty) = pending_login \<and>
   getItem (loginWithGitLab alice_world Map.empty) ''oauth_state'' = Some ''S1'' \<and>
   getItem (loginWithGitLab alice_world Map.empty) ''code_verifier'' = Some ''V1''"
proof -
  have tr: "trace (loginWithGitLab alice_world Map.empty) =
      [StorageSet ''oauth_state'' ''S1'', StorageSet ''code_verifier'' ''V1'', BuildURL ''S1'' ''V1'',
       Navigate ''https://gitlab/oauth/authorize?state=S1'']"
    by (simp add: loginWithGitLab_def alice_world_def prims)
  have i: "(3::nat) < length (trace (loginWithGitLab alice_world Map.empty))"
    and e: "is_redirect_step (trace (loginWithGitLab alice_world Map.empty) ! 3)"
    by (simp_all add: tr)
  from login_persists_before_redirect [OF i e] tr show ?thesis
    by (auto simp add: alice_world_def pending_login_def)
qed

text \<open>
  C6, as the code has it. The keys written by the authentication core are
  \<open>oauth_state\<close>, \<open>code_verifier\<close>, \<open>gitlab_access_token\<close> and
  \<open>gitlab_refresh_token\<close>: login initiation touches only the first two, the callback
  handler touches only these four, and the home page's logout touches exactly these four.
  Every logout leaves all four absent. The callback handler removes the two flow parameters,
  and nothing else, when the run commits; a run that fails one of the handler's own checks
  touches no key at all. Keys outside the four keep their value through every run of the
  callback handler.
\<close>

theorem session_layout:
  "touched_keys (trace (loginWithGitLab w s)) \<subseteq> {''oauth_state'', ''code_verifier''} \<and>
   touched_keys (trace (onMount w code state s)) \<subseteq> core_keys \<and>
   touched_keys (trace (logout_home s)) = core_keys \<and>
   (\<forall>k \<in> core_keys.
      getItem (logout_home s) k = None \<and> getItem (logout_repos s) k = None \<and>
      getItem (logout_dashboard s) k = None \<and> getItem (logout_callback s) k = None) \<and>
   (\<forall>u. outcome (onMount w code state s) = Committed u \<longrightarrow>
      removed_keys (trace (onMount w code state s)) = [''oauth_state'', ''code_verifier'']) \<and>
   (\<forall>f. outcome (onMount w code state s) = Failed f \<and> guarded_failure f \<longrightarrow>
      touched_keys (trace (onMount w code state s)) = {}) \<and>
   (\<forall>k. k \<notin> core_keys \<longrightarrow> getItem (onMount w code state s) k = s k)"
  using loginWithGitLab_touched [of w s] onMount_touched [of w code state s]
    logout_home_touched [of s] logout_clears_core [of _ s]
    onMount_committed [of w code state s] onMount_guarded [of w code state s]
    onMount_frame [of _ w code state s]
  by (simp add: logout_repos_def logout_dashboard_def logout_callback_def)

theorem session_layout_witness:
  "touched_keys (trace (loginWithGitLab alice_world Map.empty)) = {''oauth_state'', ''code_verifier''} \<and>
   touched_keys (trace (onMount alice_world (Some ''c'') (Some ''S1'') pending_login)) = core_keys \<and>
   ''oauth_state'' \<in> core_keys \<and> getItem (logout_home pending_login) ''oauth_state'' = None \<and>
   outcome (onMount alice_world (Some ''c'') (Some ''S1'') pending_login) = Committed ''alice'' \<and>
   removed_keys (trace (onMount alice_world (Some ''c'') (Some ''S1'') pending_login))
     = [''oauth_state'', ''code_verifier''] \<and>
   outcome (onMount mallory_world (Some ''c'') (Some ''S1'') pending_login)
     = Failed (TokenExchangeError ''invalid_grant'') \<and>
   guarded_failure (TokenExchangeError ''invalid_grant'') \<and>
   touched_keys (trace (onMount mallory_world (Some ''c'') (Some ''S1'') pending_login)) = {} \<and>
   ''selected_repo'' \<notin> core_keys \<and>
   getItem (onMount alice_world (Some ''c'') (Some ''S1'') pending_login) ''selected_repo''
     = pending_login ''selected_repo''"
proof -
  have a: "outcome (onMount alice_world (Some ''c'') (Some ''S1'') pending_login) = Committed ''alice''"
    by (simp add: run worlds)
  have m: "outcome (onMount mallory_world (Some ''c'') (Some ''S1'') pending_login)
      = Failed (TokenExchangeError ''invalid_grant'')"
    by (simp add: run worlds)
  have k: "''oauth_state'' \<in> core_keys"
    by (simp add: core_keys_def)
  have l: "touched_keys (trace (loginWithGitLab alice_world Map.empty)) = {''oauth_state'', ''code_verifier''}"
    by (auto simp add: loginWithGitLab_def alice_world_def prims touched_keys_simps)
  have t: "touched_keys (trace (onMount alice_world (Some ''c'') (Some ''S1'') pending_login)) = core_keys"
    by (auto simp add: run worlds touched_keys_simps core_keys_def)
  from session_layout [of alice_world pending_login "Some ''c''" "Some ''S1''"]
    session_layout [of mallory_world pending_login "Some ''c''" "Some ''S1''"]
    a m k l t token_keys_core(5)
  show ?thesis by simp
qed

text \<open>
  C6, as stated, fails twice: the access token is stored under \<open>gitlab_access_token\<close>,
  not \<open>access_token\<close>, and a run that fails at the exchange leaves both flow parameters
  in the storage.
\<close>

theorem session_layout_counterexample:
  "getItem (onMount alice_world (Some ''c'') (Some ''S1'') pending_login) ''access_token'' = None \<and>
   getItem (onMount alice_world (Some ''c'') (Some ''S1'') pending_login) ''gitlab_access_token'' = Some ''T'' \<and>
   outcome (onMount mallory_world (Some ''c'') (Some ''S1'') pending_login)
     = Failed (TokenExchangeError ''invalid_grant'') \<and>
   getItem (onMount mallory_world (Some ''c'') (Some ''S1'') pending_login) ''oauth_state'' = Some ''S1'' \<and>
   getItem (onMount mallory_world (Some ''c'') (Some ''S1'') pending_login) ''code_verifier'' = Some ''V1''"
  by (simp add: run worlds)

text \<open>
  C8. After the logout of any page the storage holds neither an access token nor a
  refresh token; logout of an empty storage leaves it empty; and logging out twice leaves
  the storage as logging out once does.
\<close>

theorem logout_then_read_absent:
  "getItem (logout_home s) ''gitlab_access_token'' = None \<and>
   getItem (logout_home s) ''gitlab_refresh_token'' = None \<and>
   getItem (logout_repos s) ''gitlab_access_token'' = None \<and>
   getItem (logout_repos s) ''gitlab_refresh_token'' = None \<and>
   getItem (logout_dashboard s) ''gitlab_access_token'' = None \<and>
   getItem (logout_dashboard s) ''gitlab_refresh_token'' = None \<and>
   getItem (logout_callback s) ''gitlab_access_token'' = None \<and>
   getItem (logout_callback s) ''gitlab_refresh_token'' = None \<and>
   storage (logout_home Map.empty) = Map.empty \<and>
   storage (logout_repos Map.empty) = Map.empty \<and>
   storage (logout_home (storage (logout_home s))) = storage (logout_home s) \<and>
   storage (logout_repos (storage (logout_repos s))) = storage (logout_repos s)"
  by (simp add: getItem_def logout_repos_def logout_dashboard_def logout_callback_def
      logout_home_storage logout_and_goto_storage token_keys_core)

theorem logout_then_read_absent_witness:
  "getItem (logout_home [''gitlab_access_token'' \<mapsto> ''T'']) ''gitlab_access_token'' = None \<and>
   getItem (logout_repos [''gitlab_access_token'' \<mapsto> ''T'']) ''gitlab_access_token'' = None \<and>
   storage (logout_home Map.empty) = Map.empty"
  using logout_then_read_absent [of "[''gitlab_access_token'' \<mapsto> ''T'']"]
  by simp

text \<open>
  C9. On the home page's startup with a stored, non-empty access token: when the provider
  answers the identity check with a non-ok response, both token keys are removed and the
  user is not logged in; when the request throws, the storage is left as it was, the
  request is the only effect, and the user is not logged in either.
\<close>

theorem rejected_token_cleared:
  assumes "s ''gitlab_access_token'' = Some t" and "t \<noteq> []"
  shows "(\<forall>resp. fetchUser w t = Returns resp \<and> \<not> ok resp \<longrightarrow>
            storage (home_onMount w s)
              = s(''gitlab_access_token'' := None, ''gitlab_refresh_token'' := None) \<and>
            \<not> isLoggedIn (home_onMount w s)) \<and>
         (\<forall>m. fetchUser w t = Throws m \<longrightarrow>
            storage (home_onMount w s) = s \<and>
            trace (home_onMount w s) = [Request (GetUser t)] \<and>
            \<not> isLoggedIn (home_onMount w s))"
  using assms by (simp add: home_onMount_def prims)

theorem rejected_token_cleared_witness:
  "storage (home_onMount rejecting_world logged_in) = Map.empty \<and>
   \<not> isLoggedIn (home_onMount rejecting_world logged_in) \<and>
   storage (home_onMount offline_world logged_in) = logged_in \<and>
   \<not> isLoggedIn (home_onMount offline_world logged_in)"
  using rejected_token_cleared [of logged_in "''T''" rejecting_world]
    rejected_token_cleared [of logged_in "''T''" offline_world]
  by (simp add: worlds)

text \<open>
  C10. The home page's logout removes the four keys of the authentication core and
  nothing else, so \<open>selected_repo\<close> keeps its value; the logout of the repositories,
  dashboard and callback pages (one and the same function) removes \<open>selected_repo\<close>
  as well.
\<close>

theorem home_logout_keeps_selected_repo:
  "removed_keys (trace (logout_home s))
     = [''gitlab_access_token'', ''gitlab_refresh_token'', ''oauth_state'', ''code_verifier''] \<and>
   storage (logout_home s) = s |` (- core_keys) \<and>
   getItem (logout_home s) ''selected_repo'' = s ''selected_repo'' \<and>
   removed_keys (trace (logout_repos s))
     = [''gitlab_access_token'', ''gitlab_refresh_token'', ''oauth_state'', ''code_verifier'',
        ''selected_repo''] \<and>
   logout_dashboard s = logout_repos s \<and>
   logout_callback s = logout_repos s \<and>
   storage (logout_repos s) = s |` (- insert ''selected_repo'' core_keys) \<and>
   getItem (logout_repos s) ''selected_repo'' = None"
  by (simp add: getItem_def logout_repos_def logout_dashboard_def logout_callback_def
      logout_home_storage logout_and_goto_storage logout_traces removed_keys_simps token_keys_core)

theorem home_logout_keeps_selected_repo_witness:
  "getItem (logout_home (storage (selectRepo (Some ''blog'') [''gitlab_access_token'' \<mapsto> ''T''])))
      ''selected_repo'' = Some ''blog'' \<and>
   getItem (logout_home (storage (selectRepo (Some ''blog'') [''gitlab_access_token'' \<mapsto> ''T''])))
      ''gitlab_access_token'' = None \<and>
   getItem (logout_repos (storage (selectRepo (Some ''blog'') [''gitlab_access_token'' \<mapsto> ''T''])))
      ''selected_repo'' = None"
  using home_logout_keeps_selected_repo
    [of "storage (selectRepo (Some ''blog'') [''gitlab_access_token'' \<mapsto> ''T''])"]
  by (simp add: getItem_def token_keys_core selectRepo_def setItem_def emit_def)

end
